theory Spec2Isabelle
  imports Main "HOL-Library.AList"
begin

section \<open>Python values and the object store\<close>

text \<open>
  The embed of \<^verbatim>\<open>discord_http/embeds.py\<close> holds scalars (strings, a colour, a
  date-time) and mutable containers (four dictionaries and a list of dictionaries).
  Containers are Python objects with identity: \<^verbatim>\<open>to_dict\<close> hands out the very
  objects the embed holds and \<^verbatim>\<open>from_dict\<close> stores the objects it is given. The
  model therefore keeps containers in an explicit store and lets values refer to them
  by address.
\<close>

type_synonym addr = nat

text \<open>
  Python's \<^verbatim>\<open>datetime\<close>: the wall-clock fields and, for an aware value, the offset
  of its time zone from UTC in seconds (\<open>None\<close> for a naive value).
\<close>

record datetime =
  year :: nat
  month :: nat
  day :: nat
  hour :: nat
  minute :: nat
  second :: nat
  microsecond :: nat
  tzinfo :: "int option"

text \<open>
  The values an attribute or a dictionary entry can hold: \<^verbatim>\<open>None\<close>, booleans,
  integers, strings, date-times, and references to containers in the store.
\<close>

datatype pyval =
    PNone
  | PBool bool
  | PInt int
  | PStr string
  | PDateTime datetime
  | PRef addr

type_synonym dict = "(string \<times> pyval) list"

datatype obj = ODict dict | OList "pyval list"

type_synonym heap = "obj list"

datatype error = TypeError | AttributeError | IndexError | KeyError | DanglingRef

definition heap_get :: "heap \<Rightarrow> addr \<Rightarrow> obj option" where
  "heap_get h a = (if a < length h then Some (h ! a) else None)"

definition alloc :: "heap \<Rightarrow> obj \<Rightarrow> heap \<times> addr" where
  "alloc h ob = (h @ [ob], length h)"

definition bind_res :: "error + 'a \<Rightarrow> ('a \<Rightarrow> error + 'b) \<Rightarrow> error + 'b" where
  "bind_res m f = (case m of Inl err \<Rightarrow> Inl err | Inr x \<Rightarrow> f x)"

text \<open>Truth value of a Python value, as \<^verbatim>\<open>if v:\<close> tests it.\<close>

definition py_truthy :: "heap \<Rightarrow> pyval \<Rightarrow> bool" where
  "py_truthy h v =
     (case v of
        PNone \<Rightarrow> False
      | PBool b \<Rightarrow> b
      | PInt i \<Rightarrow> i \<noteq> 0
      | PStr s \<Rightarrow> s \<noteq> []
      | PDateTime d \<Rightarrow> True
      | PRef a \<Rightarrow>
          (case heap_get h a of
             Some (ODict d) \<Rightarrow> d \<noteq> []
           | Some (OList xs) \<Rightarrow> xs \<noteq> []
           | None \<Rightarrow> False))"

text \<open>\<^verbatim>\<open>d.get(k)\<close> and \<^verbatim>\<open>d[k] = v\<close> on a dictionary value.\<close>

definition dict_get :: "dict \<Rightarrow> string \<Rightarrow> pyval" where
  "dict_get d k = (case map_of d k of None \<Rightarrow> PNone | Some v \<Rightarrow> v)"

definition setitem :: "dict \<Rightarrow> string \<Rightarrow> pyval \<Rightarrow> dict" where
  "setitem d k v = AList.update k v d"

text \<open>
  The container operations the embed's methods perform on an attribute's value, with the
  exception Python raises when the value is not a container of the right kind.
\<close>

definition obj_setitem :: "heap \<Rightarrow> pyval \<Rightarrow> string \<Rightarrow> pyval \<Rightarrow> error + heap" where
  "obj_setitem h target k v =
     (case target of
        PRef a \<Rightarrow>
          (case heap_get h a of
             Some (ODict d) \<Rightarrow> Inr (h[a := ODict (setitem d k v)])
           | Some (OList xs) \<Rightarrow> Inl TypeError
           | None \<Rightarrow> Inl DanglingRef)
      | _ \<Rightarrow> Inl TypeError)"

definition obj_clear :: "heap \<Rightarrow> pyval \<Rightarrow> error + heap" where
  "obj_clear h target =
     (case target of
        PRef a \<Rightarrow>
          (case heap_get h a of
             Some (ODict d) \<Rightarrow> Inr (h[a := ODict []])
           | Some (OList xs) \<Rightarrow> Inr (h[a := OList []])
           | None \<Rightarrow> Inl DanglingRef)
      | _ \<Rightarrow> Inl AttributeError)"

definition obj_append :: "heap \<Rightarrow> pyval \<Rightarrow> pyval \<Rightarrow> error + heap" where
  "obj_append h target v =
     (case target of
        PRef a \<Rightarrow>
          (case heap_get h a of
             Some (OList xs) \<Rightarrow> Inr (h[a := OList (xs @ [v])])
           | Some (ODict d) \<Rightarrow> Inl AttributeError
           | None \<Rightarrow> Inl DanglingRef)
      | _ \<Rightarrow> Inl AttributeError)"

text \<open>
  \<^verbatim>\<open>del xs[i]\<close> on a list: a negative index counts from the end, and an index
  outside \<open>-n \<le> i < n\<close> raises \<^verbatim>\<open>IndexError\<close>.
\<close>

definition list_delitem :: "pyval list \<Rightarrow> int \<Rightarrow> error + pyval list" where
  "list_delitem xs i =
     (let n = int (length xs); j = (if i < 0 then n + i else i)
      in if 0 \<le> j \<and> j < n then Inr (take (nat j) xs @ drop (Suc (nat j)) xs)
         else Inl IndexError)"

definition obj_delitem :: "heap \<Rightarrow> pyval \<Rightarrow> int \<Rightarrow> error + heap" where
  "obj_delitem h target i =
     (case target of
        PRef a \<Rightarrow>
          (case heap_get h a of
             Some (OList xs) \<Rightarrow>
               (case list_delitem xs i of
                  Inl err \<Rightarrow> Inl err
                | Inr ys \<Rightarrow> Inr (h[a := OList ys]))
           | Some (ODict d) \<Rightarrow> Inl KeyError
           | None \<Rightarrow> Inl DanglingRef)
      | _ \<Rightarrow> Inl TypeError)"

section \<open>Collaborators: date-times, colours, assets\<close>

text \<open>
  The part of Python's \<^verbatim>\<open>datetime\<close> library that \<^verbatim>\<open>to_dict\<close> calls.
  \<open>isoformat\<close> renders \<^verbatim>\<open>YYYY-MM-DDTHH:MM:SS[.ffffff][+HH:MM[:SS]]\<close>;
  \<open>astimezone\<close> on a naive value keeps the wall clock and attaches the system's local
  zone, whose offset \<open>tz\<close> is a parameter of the model.
\<close>

fun digits :: "nat \<Rightarrow> nat \<Rightarrow> string" where
  "digits 0 n = []"
| "digits (Suc k) n = digits k (n div 10) @ [char_of (48 + n mod 10)]"

definition offset_str :: "int \<Rightarrow> string" where
  "offset_str off =
     (let a = nat \<bar>off\<bar>
      in (if off < 0 then ''-'' else ''+'') @ digits 2 (a div 3600) @ '':''
         @ digits 2 ((a mod 3600) div 60)
         @ (if a mod 60 \<noteq> 0 then '':'' @ digits 2 (a mod 60) else []))"

definition isoformat :: "datetime \<Rightarrow> string" where
  "isoformat dt =
     digits 4 (year dt) @ ''-'' @ digits 2 (month dt) @ ''-'' @ digits 2 (day dt) @ ''T''
     @ digits 2 (hour dt) @ '':'' @ digits 2 (minute dt) @ '':'' @ digits 2 (second dt)
     @ (if microsecond dt \<noteq> 0 then ''.'' @ digits 6 (microsecond dt) else [])
     @ (case tzinfo dt of None \<Rightarrow> [] | Some off \<Rightarrow> offset_str off)"

definition astimezone :: "(datetime \<Rightarrow> int) \<Rightarrow> datetime \<Rightarrow> datetime" where
  "astimezone tz dt = dt\<lparr>tzinfo := Some (tz dt)\<rparr>"

text \<open>
  Modelled from the spec: the colour wrapper \<^verbatim>\<open>Colour\<close> of
  \<^verbatim>\<open>discord_http/colour.py\<close>, which is not among the sources. The spec describes
  it as a value type that constructs from and converts to a plain integer, and counts a
  zero colour as empty under the omission rule.
\<close>

datatype colour = Colour (colour_value: int)

definition colour_truthy :: "colour \<Rightarrow> bool" where
  "colour_truthy c = (colour_value c \<noteq> 0)"

text \<open>
  \<^verbatim>\<open>Colour(v)\<close> on a dictionary entry, as \<^verbatim>\<open>from_dict\<close> calls it: a value that
  is not an integer raises.
\<close>

definition new_Colour :: "pyval \<Rightarrow> error + colour" where
  "new_Colour v =
     (case v of
        PInt i \<Rightarrow> Inr (Colour i)
      | PBool b \<Rightarrow> Inr (Colour (if b then 1 else 0))
      | _ \<Rightarrow> Inl TypeError)"

text \<open>An argument annotated \<^verbatim>\<open>Colour | int\<close>, and \<^verbatim>\<open>int(...)\<close> of it.\<close>

datatype colour_arg = CInt int | CWrap colour

fun int_of_arg :: "colour_arg \<Rightarrow> int" where
  "int_of_arg (CInt i) = i"
| "int_of_arg (CWrap c) = colour_value c"

text \<open>
  Modelled from the spec: the URL-like reference type \<^verbatim>\<open>Asset\<close> of
  \<^verbatim>\<open>discord_http/asset.py\<close>, which is not among the sources. The spec describes it
  as opaque and stringified wherever used; as an ordinary object it is always true.
\<close>

datatype asset = Asset (asset_url: string)

text \<open>An argument annotated \<^verbatim>\<open>Asset | str\<close>, with \<^verbatim>\<open>str(...)\<close> and truth value.\<close>

datatype url_arg = UStr string | UAsset asset

fun str_url :: "url_arg \<Rightarrow> string" where
  "str_url (UStr s) = s"
| "str_url (UAsset a) = asset_url a"

fun url_truthy :: "url_arg option \<Rightarrow> bool" where
  "url_truthy None = False"
| "url_truthy (Some (UStr s)) = (s \<noteq> [])"
| "url_truthy (Some (UAsset a)) = True"

fun str_truthy :: "string option \<Rightarrow> bool" where
  "str_truthy None = False"
| "str_truthy (Some s) = (s \<noteq> [])"

section \<open>The embed\<close>

text \<open>
  The attributes of an \<^verbatim>\<open>Embed\<close> instance. \<open>colour\<close> is \<^verbatim>\<open>None\<close> or a
  \<^verbatim>\<open>Colour\<close> on every path that creates an instance. \<open>priv_colour\<close> is the
  attribute \<^verbatim>\<open>_colour\<close>, which does not exist (\<open>None\<close>) until
  \<^verbatim>\<open>set_colour\<close> creates it. \<open>image_attr\<close> and
  \<open>fields_attr\<close> are the attributes \<^verbatim>\<open>image\<close> and \<^verbatim>\<open>fields\<close>. The other attributes hold whatever
  \<^verbatim>\<open>from_dict\<close> was given, so they are arbitrary values.
\<close>

record embed =
  colour :: "colour option"
  title :: pyval
  description :: pyval
  timestamp :: pyval
  url :: pyval
  type :: pyval
  footer :: pyval
  image_attr :: pyval
  thumbnail :: pyval
  author :: pyval
  fields_attr :: pyval
  priv_colour :: "colour option option"

definition opt_str :: "string option \<Rightarrow> pyval" where
  "opt_str s = (case s of None \<Rightarrow> PNone | Some x \<Rightarrow> PStr x)"

definition opt_datetime :: "datetime option \<Rightarrow> pyval" where
  "opt_datetime d = (case d of None \<Rightarrow> PNone | Some x \<Rightarrow> PDateTime x)"

text \<open>
  \<^verbatim>\<open>Embed.__init__\<close>. The arguments have their annotated types, so
  \<^verbatim>\<open>str(...)\<close> of a title or description that is not \<^verbatim>\<open>None\<close> is the string
  itself. The five containers are fresh objects.
\<close>

definition Embed_init ::
  "heap \<Rightarrow> string option \<Rightarrow> string option \<Rightarrow> colour_arg option \<Rightarrow> colour_arg option
     \<Rightarrow> string option \<Rightarrow> datetime option \<Rightarrow> heap \<times> embed" where
  "Embed_init h title_arg description_arg colour_arg color_arg url_arg timestamp_arg =
     (let col = (case colour_arg of
                   Some c \<Rightarrow> Some (Colour (int_of_arg c))
                 | None \<Rightarrow>
                     (case color_arg of
                        Some c \<Rightarrow> Some (Colour (int_of_arg c))
                      | None \<Rightarrow> None));
          (h1, ft) = alloc h (ODict []);
          (h2, im) = alloc h1 (ODict []);
          (h3, th) = alloc h2 (ODict []);
          (h4, au) = alloc h3 (ODict []);
          (h5, fl) = alloc h4 (OList [])
      in (h5,
          \<lparr>colour = col,
           title = opt_str title_arg,
           description = opt_str description_arg,
           timestamp = opt_datetime timestamp_arg,
           url = opt_str url_arg,
           type = PStr ''rich'',
           footer = PRef ft,
           image_attr = PRef im,
           thumbnail = PRef th,
           author = PRef au,
           fields_attr = PRef fl,
           priv_colour = None\<rparr>))"

text \<open>
  \<^verbatim>\<open>Embed.__repr__\<close>. The f-string formats the two attributes with Python's
  \<^verbatim>\<open>format\<close> and \<^verbatim>\<open>Colour.__str__\<close>, which are parameters here.
\<close>

definition repr_embed :: "(pyval \<Rightarrow> string) \<Rightarrow> (colour option \<Rightarrow> string) \<Rightarrow> embed \<Rightarrow> string" where
  "repr_embed fmt fmt_colour self =
     ''<Embed title='' @ fmt (title self) @ '' colour='' @ fmt_colour (colour self) @ ''>''"

text \<open>\<^verbatim>\<open>Embed.set_colour\<close>: the assignment goes to \<^verbatim>\<open>self._colour\<close>.\<close>

definition set_colour :: "embed \<Rightarrow> colour_arg option \<Rightarrow> embed" where
  "set_colour self v =
     (case v of
        None \<Rightarrow> self\<lparr>priv_colour := Some None\<rparr>
      | Some x \<Rightarrow> self\<lparr>priv_colour := Some (Some (Colour (int_of_arg x)))\<rparr>)"

text \<open>\<^verbatim>\<open>Embed.set_footer\<close> and \<^verbatim>\<open>Embed.remove_footer\<close>.\<close>

definition set_footer ::
  "heap \<Rightarrow> embed \<Rightarrow> string option \<Rightarrow> url_arg option \<Rightarrow> error + (heap \<times> embed)" where
  "set_footer h self text_arg icon_url =
     (if \<not> (str_truthy text_arg \<or> url_truthy icon_url) then
        bind_res (obj_clear h (footer self)) (\<lambda>h1. Inr (h1, self))
      else
        bind_res (if str_truthy text_arg
                  then obj_setitem h (footer self) ''text'' (PStr (the text_arg))
                  else Inr h)
          (\<lambda>h1. bind_res (if url_truthy icon_url
                            then obj_setitem h1 (footer self) ''icon_url''
                                   (PStr (str_url (the icon_url)))
                            else Inr h1)
             (\<lambda>h2. Inr (h2, self))))"

definition remove_footer :: "heap \<Rightarrow> embed \<Rightarrow> heap \<times> embed" where
  "remove_footer h self = (let (h1, a) = alloc h (ODict []) in (h1, self\<lparr>footer := PRef a\<rparr>))"

text \<open>\<^verbatim>\<open>Embed.set_author\<close> and \<^verbatim>\<open>Embed.remove_author\<close>.\<close>

definition set_author ::
  "heap \<Rightarrow> embed \<Rightarrow> string \<Rightarrow> string option \<Rightarrow> url_arg option \<Rightarrow> error + (heap \<times> embed)" where
  "set_author h self name url_arg icon_url =
     bind_res (obj_setitem h (author self) ''name'' (PStr name))
       (\<lambda>h1. bind_res (case url_arg of
                          Some u \<Rightarrow> obj_setitem h1 (author self) ''url'' (PStr u)
                        | None \<Rightarrow> Inr h1)
          (\<lambda>h2. bind_res (case icon_url of
                             Some i \<Rightarrow> obj_setitem h2 (author self) ''icon_url'' (PStr (str_url i))
                           | None \<Rightarrow> Inr h2)
             (\<lambda>h3. Inr (h3, self))))"

definition remove_author :: "heap \<Rightarrow> embed \<Rightarrow> heap \<times> embed" where
  "remove_author h self = (let (h1, a) = alloc h (ODict []) in (h1, self\<lparr>author := PRef a\<rparr>))"

text \<open>\<^verbatim>\<open>Embed.set_image\<close>, \<^verbatim>\<open>Embed.remove_image\<close> and the thumbnail's pair.\<close>

definition set_image :: "heap \<Rightarrow> embed \<Rightarrow> url_arg option \<Rightarrow> error + (heap \<times> embed)" where
  "set_image h self url_arg =
     (case url_arg of
        Some u \<Rightarrow>
          bind_res (obj_setitem h (image_attr self) ''url'' (PStr (str_url u)))
            (\<lambda>h1. Inr (h1, self))
      | None \<Rightarrow> bind_res (obj_clear h (image_attr self)) (\<lambda>h1. Inr (h1, self)))"

definition remove_image :: "heap \<Rightarrow> embed \<Rightarrow> heap \<times> embed" where
  "remove_image h self =
     (let (h1, a) = alloc h (ODict []) in (h1, self\<lparr>image_attr := PRef a\<rparr>))"

definition set_thumbnail :: "heap \<Rightarrow> embed \<Rightarrow> url_arg option \<Rightarrow> error + (heap \<times> embed)" where
  "set_thumbnail h self url_arg =
     (case url_arg of
        Some u \<Rightarrow>
          bind_res (obj_setitem h (thumbnail self) ''url'' (PStr (str_url u)))
            (\<lambda>h1. Inr (h1, self))
      | None \<Rightarrow> bind_res (obj_clear h (thumbnail self)) (\<lambda>h1. Inr (h1, self)))"

definition remove_thumbnail :: "heap \<Rightarrow> embed \<Rightarrow> heap \<times> embed" where
  "remove_thumbnail h self =
     (let (h1, a) = alloc h (ODict []) in (h1, self\<lparr>thumbnail := PRef a\<rparr>))"

text \<open>
  \<^verbatim>\<open>Embed.add_field\<close>: a fresh dictionary with the three keys is appended to the
  list that \<^verbatim>\<open>self.fields\<close> refers to.
\<close>

definition add_field ::
  "heap \<Rightarrow> embed \<Rightarrow> string \<Rightarrow> string \<Rightarrow> bool \<Rightarrow> error + (heap \<times> embed)" where
  "add_field h self name val inline =
     (let (h1, a) = alloc h (ODict [(''name'', PStr name), (''value'', PStr val),
                                    (''inline'', PBool inline)])
      in bind_res (obj_append h1 (fields_attr self) (PRef a)) (\<lambda>h2. Inr (h2, self)))"

text \<open>
  \<^verbatim>\<open>Embed.remove_field\<close>: \<^verbatim>\<open>del self.fields[index]\<close> with
  \<^verbatim>\<open>IndexError\<close> caught and dropped; any other exception propagates.
\<close>

definition remove_field :: "heap \<Rightarrow> embed \<Rightarrow> int \<Rightarrow> error + (heap \<times> embed)" where
  "remove_field h self index =
     (case obj_delitem h (fields_attr self) index of
        Inl IndexError \<Rightarrow> Inr (h, self)
      | Inl err \<Rightarrow> Inl err
      | Inr h1 \<Rightarrow> Inr (h1, self))"

text \<open>
  \<^verbatim>\<open>data.get(key, {})\<close> and \<^verbatim>\<open>data.get(key, [])\<close>: the stored value when
  the key is present, a fresh empty container otherwise.
\<close>

definition get_default :: "heap \<Rightarrow> dict \<Rightarrow> string \<Rightarrow> obj \<Rightarrow> heap \<times> pyval" where
  "get_default h data k dflt =
     (case map_of data k of
        Some v \<Rightarrow> (h, v)
      | None \<Rightarrow> (let (h1, a) = alloc h dflt in (h1, PRef a)))"

text \<open>
  \<^verbatim>\<open>Embed.from_dict\<close>. The instance is made with \<^verbatim>\<open>cls.__new__\<close>, so only the
  attributes assigned here exist. \<open>data\<close> is the content of the dictionary passed in; its
  entries are stored as they are, references included.
\<close>

definition from_dict :: "heap \<Rightarrow> dict \<Rightarrow> error + (heap \<times> embed)" where
  "from_dict h data =
     bind_res (if dict_get data ''color'' \<noteq> PNone
               then bind_res (new_Colour (dict_get data ''color'')) (\<lambda>c. Inr (Some c))
               else Inr None)
       (\<lambda>col.
          let (h1, ft) = get_default h data ''footer'' (ODict []);
              (h2, im) = get_default h1 data ''image'' (ODict []);
              (h3, th) = get_default h2 data ''thumbnail'' (ODict []);
              (h4, au) = get_default h3 data ''author'' (ODict []);
              (h5, fl) = get_default h4 data ''fields'' (OList [])
          in Inr (h5,
                  \<lparr>colour = col,
                   title = dict_get data ''title'',
                   description = dict_get data ''description'',
                   timestamp = dict_get data ''timestamp'',
                   url = dict_get data ''url'',
                   type = (case map_of data ''type'' of None \<Rightarrow> PStr ''rich'' | Some v \<Rightarrow> v),
                   footer = ft,
                   image_attr = im,
                   thumbnail = th,
                   author = au,
                   fields_attr = fl,
                   priv_colour = None\<rparr>))"

text \<open>
  \<^verbatim>\<open>Embed.to_dict\<close>. Each \<^verbatim>\<open>if self.x: embed[key] = self.x\<close> is one
  \<open>put_if\<close>; \<open>to_dict_plain\<close> is the method up to the timestamp. The result of
  \<open>to_dict\<close> is the content of the fresh dictionary, together with the instance, whose
  \<^verbatim>\<open>timestamp\<close> the method may have replaced.
\<close>

definition put_if :: "bool \<Rightarrow> string \<Rightarrow> pyval \<Rightarrow> dict \<Rightarrow> dict" where
  "put_if c k v d = (if c then setitem d k v else d)"

definition is_datetime :: "pyval \<Rightarrow> bool" where
  "is_datetime v = (case v of PDateTime d \<Rightarrow> True | _ \<Rightarrow> False)"

definition colour_opt_truthy :: "colour option \<Rightarrow> bool" where
  "colour_opt_truthy c = (case c of None \<Rightarrow> False | Some x \<Rightarrow> colour_truthy x)"

definition int_of_colour :: "colour option \<Rightarrow> pyval" where
  "int_of_colour c = (case c of None \<Rightarrow> PNone | Some x \<Rightarrow> PInt (colour_value x))"

definition to_dict_plain :: "heap \<Rightarrow> embed \<Rightarrow> dict" where
  "to_dict_plain h self =
     (let embed = [];
          embed = put_if (py_truthy h (title self)) ''title'' (title self) embed;
          embed = put_if (py_truthy h (description self)) ''description'' (description self) embed;
          embed = put_if (py_truthy h (url self)) ''url'' (url self) embed;
          embed = put_if (py_truthy h (author self)) ''author'' (author self) embed;
          embed = put_if (colour_opt_truthy (colour self)) ''color'' (int_of_colour (colour self)) embed;
          embed = put_if (py_truthy h (footer self)) ''footer'' (footer self) embed;
          embed = put_if (py_truthy h (image_attr self)) ''image'' (image_attr self) embed;
          embed = put_if (py_truthy h (thumbnail self)) ''thumbnail'' (thumbnail self) embed;
          embed = put_if (py_truthy h (fields_attr self)) ''fields'' (fields_attr self) embed
      in embed)"

text \<open>
  The last statement of \<^verbatim>\<open>to_dict\<close>: a date-time without zone is replaced, in the
  instance, by \<^verbatim>\<open>astimezone()\<close> of it before it is formatted.
\<close>

definition to_dict :: "(datetime \<Rightarrow> int) \<Rightarrow> heap \<Rightarrow> embed \<Rightarrow> embed \<times> dict" where
  "to_dict tz h self =
     (let embed = to_dict_plain h self
      in if py_truthy h (timestamp self) \<and> is_datetime (timestamp self) then
           (case timestamp self of
              PDateTime dt \<Rightarrow>
                (let dt1 = (if tzinfo dt = None then astimezone tz dt else dt)
                 in (self\<lparr>timestamp := PDateTime dt1\<rparr>,
                     setitem embed ''timestamp'' (PStr (isoformat dt1))))
            | _ \<Rightarrow> (self, embed))
         else (self, embed))"

text \<open>\<^verbatim>\<open>Embed.copy\<close>: the instance after \<^verbatim>\<open>to_dict\<close>, and the new instance.\<close>

definition copy :: "(datetime \<Rightarrow> int) \<Rightarrow> heap \<Rightarrow> embed \<Rightarrow> error + (heap \<times> embed \<times> embed)" where
  "copy tz h self =
     (let (self1, d) = to_dict tz h self
      in bind_res (from_dict h d) (\<lambda>(h1, c). Inr (h1, self1, c)))"

section \<open>Example states\<close>

text \<open>
  The store and the instance that \<^verbatim>\<open>Embed().add_field(name="A", value="B")
  .add_field(name="C", value="D", inline=False)\<close> leaves, starting from an empty store.
\<close>

definition two_field_heap :: heap where
  "two_field_heap =
     [ODict [], ODict [], ODict [], ODict [], OList [PRef 5, PRef 6],
      ODict [(''name'', PStr ''A''), (''value'', PStr ''B''), (''inline'', PBool True)],
      ODict [(''name'', PStr ''C''), (''value'', PStr ''D''), (''inline'', PBool False)]]"

definition plain_embed :: embed where
  "plain_embed =
     \<lparr>colour = None, title = PNone, description = PNone, timestamp = PNone, url = PNone,
      type = PStr ''rich'', footer = PRef 0, image_attr = PRef 1, thumbnail = PRef 2,
      author = PRef 3, fields_attr = PRef 4, priv_colour = None\<rparr>"

text \<open>
  A naive date-time, the instance \<^verbatim>\<open>Embed(timestamp=...)\<close> holding it, and a
  system whose local zone is UTC+1.
\<close>

definition example_naive :: datetime where
  "example_naive =
     \<lparr>year = 2024, month = 1, day = 2, hour = 3, minute = 4, second = 5, microsecond = 0,
      tzinfo = None\<rparr>"

definition stamped_embed :: embed where
  "stamped_embed = plain_embed\<lparr>timestamp := PDateTime example_naive\<rparr>"

definition cet :: "datetime \<Rightarrow> int" where
  "cet dt = 3600"

section \<open>Facts about the store and dictionaries\<close>

lemma heap_get_Some_lt: "heap_get h a = Some ob \<Longrightarrow> a < length h"
  by (simp add: heap_get_def split: if_splits)

lemma heap_get_update:
  "heap_get (h[a := ob]) b = (if a = b \<and> a < length h then Some ob else heap_get h b)"
  by (simp add: heap_get_def)

lemma heap_get_append:
  "heap_get (h @ [ob]) b = (if b = length h then Some ob else heap_get h b)"
  by (auto simp: heap_get_def nth_append)

lemma heap_update_same: "heap_get h a = Some ob \<Longrightarrow> h[a := ob] = h"
  by (auto simp: heap_get_def split: if_splits)

lemma map_of_setitem: "map_of (setitem d k v) k' = (if k' = k then Some v else map_of d k')"
  by (simp add: setitem_def update_conv')

lemma map_of_put_if:
  "map_of (put_if c k v d) k' = (if c \<and> k' = k then Some v else map_of d k')"
  by (simp add: put_if_def map_of_setitem)

section \<open>The constructor and \<open>set_colour\<close>\<close>

text \<open>
  C3. \<^verbatim>\<open>set_colour\<close> writes the attribute \<^verbatim>\<open>_colour\<close> and nothing else: for
  every embed and every argument (an integer, a colour wrapper or \<^verbatim>\<open>None\<close>) the
  attribute \<^verbatim>\<open>colour\<close>, the text of \<^verbatim>\<open>__repr__\<close> and the entry
  \<^verbatim>\<open>color\<close> of \<^verbatim>\<open>to_dict()\<close> are what they were before the call, while
  \<^verbatim>\<open>_colour\<close> holds the normalised argument.
\<close>

theorem set_colour_invisible:
  "colour (set_colour e v) = colour e
   \<and> repr_embed fmt fmt_colour (set_colour e v) = repr_embed fmt fmt_colour e
   \<and> map_of (snd (to_dict tz h (set_colour e v))) ''color'' = map_of (snd (to_dict tz h e)) ''color''
   \<and> priv_colour (set_colour e v) = Some (map_option (\<lambda>x. Colour (int_of_arg x)) v)"
  by (cases v) (simp_all add: set_colour_def repr_embed_def to_dict_def to_dict_plain_def Let_def
      split: pyval.splits)

text \<open>
  C9. The constructor stores \<^verbatim>\<open>colour\<close> when both spellings are given, the one
  that is given when only one is, and nothing when neither is; an integer and a wrapper
  are both stored as the wrapper of their integer value.
\<close>

theorem init_colour_precedence:
  "colour (snd (Embed_init h t d (Some c1) (Some c2) u ts)) = Some (Colour (int_of_arg c1))
   \<and> colour (snd (Embed_init h t d (Some c1) None u ts)) = Some (Colour (int_of_arg c1))
   \<and> colour (snd (Embed_init h t d None (Some c2) u ts)) = Some (Colour (int_of_arg c2))
   \<and> colour (snd (Embed_init h t d None None u ts)) = None
   \<and> Colour (int_of_arg (CInt i)) = Colour i
   \<and> Colour (int_of_arg (CWrap w)) = w"
  by (simp add: Embed_init_def alloc_def)

lemma two_field_built:
  "bind_res (case Embed_init [] None None None None None None of
               (h, e) \<Rightarrow> add_field h e ''A'' ''B'' True)
     (\<lambda>(h, e). add_field h e ''C'' ''D'' False) = Inr (two_field_heap, plain_embed)"
  by (simp add: Embed_init_def alloc_def add_field_def obj_append_def heap_get_def bind_res_def
      two_field_heap_def plain_embed_def opt_str_def opt_datetime_def)

section \<open>Fields: \<open>add_field\<close> and \<open>remove_field\<close>\<close>

lemma list_delitem_out:
  "int (length xs) \<le> i \<or> i < - int (length xs) \<Longrightarrow> list_delitem xs i = Inl IndexError"
  by (auto simp: list_delitem_def Let_def)

lemma list_delitem_in:
  "- int (length xs) \<le> i \<Longrightarrow> i < int (length xs) \<Longrightarrow>
   list_delitem xs i =
     Inr (take (nat (if i < 0 then int (length xs) + i else i)) xs
          @ drop (Suc (nat (if i < 0 then int (length xs) + i else i))) xs)"
  by (auto simp: list_delitem_def Let_def)

text \<open>
  C6. When \<^verbatim>\<open>self.fields\<close> is a list of length \<open>n\<close> and the index is out of
  range (\<open>n \<le> i\<close> or \<open>i < -n\<close>), \<^verbatim>\<open>remove_field(i)\<close> raises nothing, leaves the
  store (and so the list) as it was, and returns the instance unchanged.
\<close>

theorem remove_field_out_of_range:
  assumes "fields_attr e = PRef a" and "heap_get h a = Some (OList xs)"
    and "int (length xs) \<le> i \<or> i < - int (length xs)"
  shows "remove_field h e i = Inr (h, e)"
  using assms by (simp add: remove_field_def obj_delitem_def list_delitem_out)

theorem remove_field_out_of_range_witness:
  "fields_attr plain_embed = PRef 4
   \<and> heap_get two_field_heap 4 = Some (OList [PRef 5, PRef 6])
   \<and> remove_field two_field_heap plain_embed 99 = Inr (two_field_heap, plain_embed)"
proof -
  have f: "fields_attr plain_embed = PRef 4" by (simp add: plain_embed_def)
  have g: "heap_get two_field_heap 4 = Some (OList [PRef 5, PRef 6])"
    by (simp add: two_field_heap_def heap_get_def)
  have r: "int (length [PRef 5, PRef 6]) \<le> 99 \<or> (99::int) < - int (length [PRef 5, PRef 6])"
    by simp
  from remove_field_out_of_range [OF f g r] f g show ?thesis by simp
qed

text \<open>
  C7. When \<^verbatim>\<open>self.fields\<close> is a list \<open>xs\<close>, \<^verbatim>\<open>add_field\<close> followed by
  \<^verbatim>\<open>remove_field(len(xs))\<close> raises nothing and leaves the list equal to \<open>xs\<close>:
  the store is the old one plus the new field's dictionary, which nothing refers to.
\<close>

theorem add_then_remove_field:
  assumes "fields_attr e = PRef a" and "heap_get h a = Some (OList xs)"
  shows "bind_res (add_field h e n v b) (\<lambda>(h1, e1). remove_field h1 e1 (int (length xs)))
           = Inr (h @ [ODict [(''name'', PStr n), (''value'', PStr v), (''inline'', PBool b)]], e)
         \<and> heap_get (h @ [ODict [(''name'', PStr n), (''value'', PStr v), (''inline'', PBool b)]]) a
           = Some (OList xs)"
proof -
  let ?r = "ODict [(''name'', PStr n), (''value'', PStr v), (''inline'', PBool b)]"
  have lt: "a < length h" using assms(2) by (rule heap_get_Some_lt)
  have g1: "heap_get (h @ [?r]) a = Some (OList xs)"
    using assms(2) lt by (simp add: heap_get_append)
  have add: "add_field h e n v b = Inr ((h @ [?r])[a := OList (xs @ [PRef (length h)])], e)"
    using assms(1) g1 by (simp add: add_field_def alloc_def obj_append_def bind_res_def)
  have del: "list_delitem (xs @ [PRef (length h)]) (int (length xs)) = Inr xs"
    by (simp add: list_delitem_def Let_def)
  have g2: "heap_get ((h @ [?r])[a := OList (xs @ [PRef (length h)])]) a
              = Some (OList (xs @ [PRef (length h)]))"
    using lt by (simp add: heap_get_update)
  have same: "(h @ [?r])[a := OList xs] = h @ [?r]"
    using g1 by (rule heap_update_same)
  have rem: "remove_field ((h @ [?r])[a := OList (xs @ [PRef (length h)])]) e (int (length xs))
               = Inr (h @ [?r], e)"
    using assms(1) g2 del same by (simp add: remove_field_def obj_delitem_def)
  show ?thesis using add rem g1 by (simp add: bind_res_def)
qed

theorem add_then_remove_field_witness:
  "fields_attr plain_embed = PRef 4
   \<and> heap_get two_field_heap 4 = Some (OList [PRef 5, PRef 6])
   \<and> bind_res (add_field two_field_heap plain_embed ''E'' ''F'' True)
        (\<lambda>(h1, e1). remove_field h1 e1 2)
      = Inr (two_field_heap
             @ [ODict [(''name'', PStr ''E''), (''value'', PStr ''F''), (''inline'', PBool True)]],
             plain_embed)
   \<and> heap_get (two_field_heap
        @ [ODict [(''name'', PStr ''E''), (''value'', PStr ''F''), (''inline'', PBool True)]]) 4
      = Some (OList [PRef 5, PRef 6])"
proof -
  have f: "fields_attr plain_embed = PRef 4" by (simp add: plain_embed_def)
  have g: "heap_get two_field_heap 4 = Some (OList [PRef 5, PRef 6])"
    by (simp add: two_field_heap_def heap_get_def)
  from add_then_remove_field [OF f g, of "''E''" "''F''" True] f g show ?thesis by simp
qed

text \<open>
  C10. When \<^verbatim>\<open>self.fields\<close> is a list of length \<open>n\<close>, \<^verbatim>\<open>remove_field(i)\<close>
  with \<open>-n \<le> i \<le> -1\<close> deletes the element at position \<open>n + i\<close>, with \<open>0 \<le> i < n\<close> the
  element at position \<open>i\<close>; with \<open>n \<le> i\<close> or \<open>i < -n\<close> it changes nothing, and those are
  the only indices that leave the store as it was.
\<close>

theorem remove_field_negative_index:
  assumes "fields_attr e = PRef a" and "heap_get h a = Some (OList xs)"
  shows "(- int (length xs) \<le> i \<and> i \<le> - 1 \<longrightarrow>
            remove_field h e i =
              Inr (h[a := OList (take (nat (int (length xs) + i)) xs
                                 @ drop (Suc (nat (int (length xs) + i))) xs)], e))
         \<and> (0 \<le> i \<and> i < int (length xs) \<longrightarrow>
            remove_field h e i =
              Inr (h[a := OList (take (nat i) xs @ drop (Suc (nat i)) xs)], e))
         \<and> (int (length xs) \<le> i \<or> i < - int (length xs) \<longrightarrow>
            remove_field h e i = Inr (h, e))
         \<and> (- int (length xs) \<le> i \<and> i < int (length xs) \<longrightarrow>
            remove_field h e i \<noteq> Inr (h, e))"
proof -
  have lt: "a < length h" using assms(2) by (rule heap_get_Some_lt)
  have neg: "remove_field h e i =
              Inr (h[a := OList (take (nat (int (length xs) + i)) xs
                                 @ drop (Suc (nat (int (length xs) + i))) xs)], e)"
    if "- int (length xs) \<le> i" "i \<le> - 1"
    using assms that by (simp add: remove_field_def obj_delitem_def list_delitem_in)
  have pos: "remove_field h e i =
              Inr (h[a := OList (take (nat i) xs @ drop (Suc (nat i)) xs)], e)"
    if "0 \<le> i" "i < int (length xs)"
    using assms that by (simp add: remove_field_def obj_delitem_def list_delitem_in)
  have out: "remove_field h e i = Inr (h, e)"
    if "int (length xs) \<le> i \<or> i < - int (length xs)"
    using assms that by (simp add: remove_field_def obj_delitem_def list_delitem_out)
  have chg: "remove_field h e i \<noteq> Inr (h, e)"
    if r: "- int (length xs) \<le> i" "i < int (length xs)"
  proof
    assume eq: "remove_field h e i = Inr (h, e)"
    define j where "j = nat (if i < 0 then int (length xs) + i else i)"
    have jlt: "j < length xs" using r by (auto simp: j_def)
    have "remove_field h e i = Inr (h[a := OList (take j xs @ drop (Suc j) xs)], e)"
      using assms r by (simp add: remove_field_def obj_delitem_def list_delitem_in j_def)
    with eq have "h[a := OList (take j xs @ drop (Suc j) xs)] = h" by simp
    then have "heap_get (h[a := OList (take j xs @ drop (Suc j) xs)]) a = heap_get h a"
      by simp
    with lt assms(2) have "take j xs @ drop (Suc j) xs = xs"
      by (simp add: heap_get_update)
    then have "length (take j xs @ drop (Suc j) xs) = length xs" by simp
    with jlt show False by simp
  qed
  from neg pos out chg show ?thesis by blast
qed

theorem remove_field_negative_index_witness:
  "fields_attr plain_embed = PRef 4
   \<and> heap_get two_field_heap 4 = Some (OList [PRef 5, PRef 6])
   \<and> remove_field two_field_heap plain_embed (- 1)
       = Inr (two_field_heap[4 := OList [PRef 5]], plain_embed)
   \<and> remove_field two_field_heap plain_embed (- 2)
       = Inr (two_field_heap[4 := OList [PRef 6]], plain_embed)
   \<and> remove_field two_field_heap plain_embed (- 3) = Inr (two_field_heap, plain_embed)
   \<and> remove_field two_field_heap plain_embed 1 \<noteq> Inr (two_field_heap, plain_embed)"
proof -
  have f: "fields_attr plain_embed = PRef 4" by (simp add: plain_embed_def)
  have g: "heap_get two_field_heap 4 = Some (OList [PRef 5, PRef 6])"
    by (simp add: two_field_heap_def heap_get_def)
  have a: "remove_field two_field_heap plain_embed (- 1)
             = Inr (two_field_heap[4 := OList [PRef 5]], plain_embed)"
    using remove_field_negative_index [OF f g, of "- 1"] by simp
  have b: "remove_field two_field_heap plain_embed (- 2)
             = Inr (two_field_heap[4 := OList [PRef 6]], plain_embed)"
    using remove_field_negative_index [OF f g, of "- 2"] by simp
  have c: "remove_field two_field_heap plain_embed (- 3) = Inr (two_field_heap, plain_embed)"
    using remove_field_negative_index [OF f g, of "- 3"] by simp
  have d: "remove_field two_field_heap plain_embed 1 \<noteq> Inr (two_field_heap, plain_embed)"
    using remove_field_negative_index [OF f g, of 1, THEN conjunct2, THEN conjunct2,
        THEN conjunct2]
    by simp
  from f g a b c d show ?thesis by blast
qed

section \<open>Footer and image\<close>

lemma set_footer_both:
  assumes "footer e = PRef fa" and "heap_get h fa = Some (ODict fd)"
    and "t \<noteq> []" and "url_truthy (Some ic)"
  shows "set_footer h e (Some t) (Some ic) =
           Inr (h[fa := ODict (setitem (setitem fd ''text'' (PStr t)) ''icon_url''
                                 (PStr (str_url ic)))], e)"
proof -
  have lt: "fa < length h" using assms(2) by (rule heap_get_Some_lt)
  show ?thesis
    using assms lt
    by (simp add: set_footer_def obj_setitem_def bind_res_def heap_get_update)
qed

lemma set_footer_text_only:
  assumes "footer e = PRef fa" and "heap_get h fa = Some (ODict fd)" and "t \<noteq> []"
  shows "set_footer h e (Some t) None = Inr (h[fa := ODict (setitem fd ''text'' (PStr t))], e)"
  using assms by (simp add: set_footer_def obj_setitem_def bind_res_def)

lemma set_image_some:
  assumes "image_attr e = PRef ia" and "heap_get h ia = Some (ODict d)"
  shows "set_image h e (Some u) = Inr (h[ia := ODict (setitem d ''url'' (PStr (str_url u)))], e)"
  using assms by (simp add: set_image_def obj_setitem_def bind_res_def)

lemma set_image_none:
  assumes "image_attr e = PRef ia" and "heap_get h ia = Some (ODict d)"
  shows "set_image h e None = Inr (h[ia := ODict []], e)"
  using assms by (simp add: set_image_def obj_clear_def bind_res_def)

text \<open>
  C5. Footer updates merge and image updates replace. When \<^verbatim>\<open>self.footer\<close> and
  \<^verbatim>\<open>self.image\<close> are dictionaries, \<^verbatim>\<open>set_footer(text=t, icon_url=i)\<close> followed
  by \<^verbatim>\<open>set_footer(text=t)\<close> (both arguments true, as \<^verbatim>\<open>"a"\<close> and \<^verbatim>\<open>"b"\<close>
  are) leaves a footer with both \<^verbatim>\<open>text\<close> and \<^verbatim>\<open>icon_url\<close>, while
  \<^verbatim>\<open>set_image(url=u)\<close> followed by \<^verbatim>\<open>set_image(url=None)\<close> leaves the image
  dictionary empty. Neither sequence raises.
\<close>

theorem footer_merges_image_replaces:
  assumes "footer e = PRef fa" and "heap_get h fa = Some (ODict fd)"
    and "image_attr e = PRef ia" and "heap_get h ia = Some (ODict imd)"
    and "t \<noteq> []" and "url_truthy (Some ic)"
  shows "(\<exists>h2 d. bind_res (set_footer h e (Some t) (Some ic))
                    (\<lambda>(h1, e1). set_footer h1 e1 (Some t) None) = Inr (h2, e)
                \<and> heap_get h2 fa = Some (ODict d)
                \<and> map_of d ''text'' = Some (PStr t)
                \<and> map_of d ''icon_url'' = Some (PStr (str_url ic)))
         \<and> (\<exists>h2. bind_res (set_image h e (Some u)) (\<lambda>(h1, e1). set_image h1 e1 None)
                    = Inr (h2, e)
                \<and> heap_get h2 ia = Some (ODict []))"
proof -
  have lf: "fa < length h" using assms(2) by (rule heap_get_Some_lt)
  have li: "ia < length h" using assms(4) by (rule heap_get_Some_lt)
  let ?d1 = "setitem (setitem fd ''text'' (PStr t)) ''icon_url'' (PStr (str_url ic))"
  let ?h1 = "h[fa := ODict ?d1]"
  have s1: "set_footer h e (Some t) (Some ic) = Inr (?h1, e)"
    using assms(1,2,5,6) by (rule set_footer_both)
  have g1: "heap_get ?h1 fa = Some (ODict ?d1)" using lf by (simp add: heap_get_update)
  let ?d2 = "setitem ?d1 ''text'' (PStr t)"
  let ?h2 = "?h1[fa := ODict ?d2]"
  have s2: "set_footer ?h1 e (Some t) None = Inr (?h2, e)"
    using assms(1) g1 assms(5) by (rule set_footer_text_only)
  have g2: "heap_get ?h2 fa = Some (ODict ?d2)" using lf by (simp add: heap_get_update)
  have m1: "map_of ?d2 ''text'' = Some (PStr t)" by (simp add: map_of_setitem)
  have m2: "map_of ?d2 ''icon_url'' = Some (PStr (str_url ic))" by (simp add: map_of_setitem)
  have footer_part: "\<exists>h2 d. bind_res (set_footer h e (Some t) (Some ic))
                    (\<lambda>(h1, e1). set_footer h1 e1 (Some t) None) = Inr (h2, e)
                \<and> heap_get h2 fa = Some (ODict d)
                \<and> map_of d ''text'' = Some (PStr t)
                \<and> map_of d ''icon_url'' = Some (PStr (str_url ic))"
    using s1 s2 g2 m1 m2 by (simp add: bind_res_def)
  let ?i1 = "h[ia := ODict (setitem imd ''url'' (PStr (str_url u)))]"
  have i1: "set_image h e (Some u) = Inr (?i1, e)"
    using assms(3,4) by (rule set_image_some)
  have gi: "heap_get ?i1 ia = Some (ODict (setitem imd ''url'' (PStr (str_url u))))"
    using li by (simp add: heap_get_update)
  have i2: "set_image ?i1 e None = Inr (?i1[ia := ODict []], e)"
    using assms(3) gi by (rule set_image_none)
  have gi2: "heap_get (?i1[ia := ODict []]) ia = Some (ODict [])"
    using li by (simp add: heap_get_update)
  have image_part: "\<exists>h2. bind_res (set_image h e (Some u)) (\<lambda>(h1, e1). set_image h1 e1 None)
                    = Inr (h2, e) \<and> heap_get h2 ia = Some (ODict [])"
    using i1 i2 gi2 by (simp add: bind_res_def)
  from footer_part image_part show ?thesis by blast
qed

theorem footer_merges_image_replaces_witness:
  "footer plain_embed = PRef 0 \<and> heap_get two_field_heap 0 = Some (ODict [])
   \<and> image_attr plain_embed = PRef 1 \<and> heap_get two_field_heap 1 = Some (ODict [])
   \<and> (\<exists>h2 d. bind_res (set_footer two_field_heap plain_embed (Some ''a'') (Some (UStr ''b'')))
                 (\<lambda>(h1, e1). set_footer h1 e1 (Some ''a'') None) = Inr (h2, plain_embed)
              \<and> heap_get h2 0 = Some (ODict d)
              \<and> map_of d ''text'' = Some (PStr ''a'')
              \<and> map_of d ''icon_url'' = Some (PStr ''b''))
   \<and> (\<exists>h2. bind_res (set_image two_field_heap plain_embed (Some (UStr ''x'')))
                 (\<lambda>(h1, e1). set_image h1 e1 None) = Inr (h2, plain_embed)
              \<and> heap_get h2 1 = Some (ODict []))"
proof -
  have f: "footer plain_embed = PRef 0" by (simp add: plain_embed_def)
  have g: "heap_get two_field_heap 0 = Some (ODict [])"
    by (simp add: two_field_heap_def heap_get_def)
  have i: "image_attr plain_embed = PRef 1" by (simp add: plain_embed_def)
  have j: "heap_get two_field_heap 1 = Some (ODict [])"
    by (simp add: two_field_heap_def heap_get_def)
  have t: "''a'' \<noteq> []" by simp
  have u: "url_truthy (Some (UStr ''b''))" by simp
  from footer_merges_image_replaces [OF f g i j t u, of "UStr ''x''"] f g i j
  show ?thesis by simp
qed

section \<open>Serialization\<close>

lemma map_of_to_dict_plain_timestamp: "map_of (to_dict_plain h e) ''timestamp'' = None"
  by (simp add: to_dict_plain_def Let_def map_of_put_if)

text \<open>
  C8. \<^verbatim>\<open>to_dict()\<close> has a \<^verbatim>\<open>timestamp\<close> entry exactly when the stored timestamp
  is true and a date-time, which is when it is a date-time at all. A naive date-time is
  replaced in the instance by the same wall clock with the local zone attached, and the
  entry is the ISO-8601 text of that aware value; an aware date-time is emitted as it is
  and the instance is unchanged, as it is when the timestamp is not a date-time.
\<close>

theorem to_dict_timestamp:
  "((\<exists>v. map_of (snd (to_dict tz h e)) ''timestamp'' = Some v)
      = (py_truthy h (timestamp e) \<and> is_datetime (timestamp e)))
   \<and> ((py_truthy h (timestamp e) \<and> is_datetime (timestamp e)) = (\<exists>dt. timestamp e = PDateTime dt))
   \<and> (\<forall>dt. timestamp e = PDateTime dt \<and> tzinfo dt = None \<longrightarrow>
         fst (to_dict tz h e) = e\<lparr>timestamp := PDateTime (dt\<lparr>tzinfo := Some (tz dt)\<rparr>)\<rparr>
         \<and> map_of (snd (to_dict tz h e)) ''timestamp''
             = Some (PStr (isoformat (dt\<lparr>tzinfo := Some (tz dt)\<rparr>))))
   \<and> (\<forall>dt. timestamp e = PDateTime dt \<and> tzinfo dt \<noteq> None \<longrightarrow>
         fst (to_dict tz h e) = e
         \<and> map_of (snd (to_dict tz h e)) ''timestamp'' = Some (PStr (isoformat dt)))
   \<and> ((\<forall>dt. timestamp e \<noteq> PDateTime dt) \<longrightarrow> fst (to_dict tz h e) = e)"
proof -
  note plain = map_of_to_dict_plain_timestamp [of h e]
  show ?thesis
  proof (cases "timestamp e")
    case (PDateTime dt)
    then show ?thesis
      by (simp add: to_dict_def Let_def py_truthy_def is_datetime_def map_of_setitem
          astimezone_def)
  qed (simp_all add: to_dict_def Let_def py_truthy_def is_datetime_def plain)
qed

end
